theory Spec2Isabelle
  imports Main "HOL-Library.Sublist"
begin

section \<open>The DAG module \<open>dags/raw_from_api_to_s3.py\<close>\<close>

text \<open>
  The module defines one Airflow task, \<open>get_and_transfer_api_data_to_s3\<close>, with its helper
  \<open>get_dates\<close>, the dictionary \<open>args\<close> of default arguments and the \<open>DAG\<close> object that
  schedules the task. Python strings are modelled as \<open>string\<close>; the two characters of the
  source outside ASCII (the markers that open the log lines) are written as their UTF-8
  bytes.
\<close>

subsection \<open>Strings and decimal rendering\<close>

definition NL :: string where
  "NL = [CHR 0x0A]"

definition SQ :: string where
  "SQ = [CHR 0x27]"

definition digit_char :: "nat \<Rightarrow> char" where
  "digit_char d = ''0123456789'' ! d"

text \<open>Python's \<open>str(n)\<close> for a natural number; \<open>digit_char\<close> is only applied below 10.\<close>

fun dec :: "nat \<Rightarrow> string" where
  "dec n = (if n < 10 then [digit_char n] else dec (n div 10) @ [digit_char (n mod 10)])"

declare dec.simps [simp del]

text \<open>The format specification \<open>0wd\<close>: zeros on the left up to width \<open>w\<close>, never a cut.\<close>

definition zero_pad :: "nat \<Rightarrow> nat \<Rightarrow> string" where
  "zero_pad w n = replicate (w - length (dec n)) (CHR ''0'') @ dec n"

subsection \<open>The values of the invocation context\<close>

text \<open>
  A \<open>pendulum.DateTime\<close> as it arrives: the calendar fields in the time zone that the
  value carries, and the offset of that zone from UTC in seconds.
\<close>

record DateTime =
  year :: nat
  month :: nat
  day :: nat
  hour :: nat
  minute :: nat
  second :: nat
  microsecond :: nat
  utc_offset :: int

definition is_leap :: "nat \<Rightarrow> bool" where
  "is_leap y = (y mod 4 = 0 \<and> (y mod 100 \<noteq> 0 \<or> y mod 400 = 0))"

definition days_in_month :: "nat \<Rightarrow> nat \<Rightarrow> nat" where
  "days_in_month y m =
     (if m = 2 then (if is_leap y then 29 else 28)
      else if m = 4 \<or> m = 6 \<or> m = 9 \<or> m = 11 then 30 else 31)"

text \<open>The range that the constructor of Python's \<open>datetime\<close> enforces.\<close>

definition valid_datetime :: "DateTime \<Rightarrow> bool" where
  "valid_datetime dt =
     (1 \<le> year dt \<and> year dt \<le> 9999 \<and> 1 \<le> month dt \<and> month dt \<le> 12 \<and>
      1 \<le> day dt \<and> day dt \<le> days_in_month (year dt) (month dt) \<and>
      hour dt < 24 \<and> minute dt < 60 \<and> second dt < 60 \<and> microsecond dt < 1000000)"

text \<open>
  \<open>DateTime.format\<close> of pendulum, for the tokens that the module's format string uses:
  \<open>YYYY\<close> is the year in plain decimal (\<open>d\<close>, no padding: the year 999 gives three
  digits), \<open>MM\<close> the month as \<open>02d\<close>, \<open>DD\<close> the day as \<open>02d\<close>; any other character is
  copied. The other tokens of pendulum are not modelled.
\<close>

fun format_datetime :: "DateTime \<Rightarrow> string \<Rightarrow> string" where
  "format_datetime dt [] = []"
| "format_datetime dt (c # r) =
     (if take 4 (c # r) = ''YYYY'' then dec (year dt) @ format_datetime dt (drop 3 r)
      else if take 2 (c # r) = ''MM'' then zero_pad 2 (month dt) @ format_datetime dt (drop 1 r)
      else if take 2 (c # r) = ''DD'' then zero_pad 2 (day dt) @ format_datetime dt (drop 1 r)
      else c # format_datetime dt r)"

declare format_datetime.simps [simp del]

datatype exn =
    KeyError string
  | AttributeError string
  | DuckDBError string

text \<open>
  A Python \<open>str\<close> without a brace. \<open>str.format\<close> returns such a string as it is, whatever
  its arguments; a string with replacement fields is not a value of this type.
\<close>

typedef plain_str = "{s :: string. CHR 0x7B \<notin> set s \<and> CHR 0x7D \<notin> set s}"
  by (rule exI [of _ "[]"]) simp

text \<open>
  A value stored in the context: a \<open>DateTime\<close>; a \<open>str\<close> (\<open>ds\<close>, \<open>ts\<close>, \<open>run_id\<close>, ...); or
  an object of another type, which has no attribute \<open>format\<close> (the task instance, the DAG,
  \<open>None\<close>, ...), given by its type name.
\<close>

datatype ctx_value =
    DateTimeV DateTime
  | StrV plain_str
  | ObjectV string

type_synonym "context" = "string \<rightharpoonup> ctx_value"

definition getitem :: "context \<Rightarrow> string \<Rightarrow> exn + ctx_value" where
  "getitem ctx k = (case ctx k of None \<Rightarrow> Inl (KeyError k) | Some v \<Rightarrow> Inr v)"

definition call_format :: "ctx_value \<Rightarrow> string \<Rightarrow> exn + string" where
  "call_format v fmt =
     (case v of
        DateTimeV dt \<Rightarrow> Inr (format_datetime dt fmt)
      | StrV s \<Rightarrow> Inr (Rep_plain_str s)
      | ObjectV ty \<Rightarrow> Inl (AttributeError ty))"

subsection \<open>Module constants\<close>

definition OWNER :: string where
  "OWNER = ''almas.maksutbekov''"

definition DAG_ID :: string where
  "DAG_ID = ''raw_from_api_to_s3''"

definition LAYER :: string where
  "LAYER = ''raw''"

definition SOURCE :: string where
  "SOURCE = ''earthquake''"

text \<open>
  \<open>ACCESS_KEY\<close> and \<open>SECRET_KEY\<close> are read from the Airflow variables when the module is
  loaded; the functions below take them as a parameter.
\<close>

record secrets =
  ACCESS_KEY :: string
  SECRET_KEY :: string

subsection \<open>\<open>get_dates\<close>\<close>

definition get_dates :: "context \<Rightarrow> exn + (string \<times> string)" where
  "get_dates ctx =
     (case getitem ctx ''data_interval_start'' of
        Inl e \<Rightarrow> Inl e
      | Inr v1 \<Rightarrow>
          (case call_format v1 ''YYYY-MM-DD'' of
             Inl e \<Rightarrow> Inl e
           | Inr start_date \<Rightarrow>
               (case getitem ctx ''data_interval_end'' of
                  Inl e \<Rightarrow> Inl e
                | Inr v2 \<Rightarrow>
                    (case call_format v2 ''YYYY-MM-DD'' of
                       Inl e \<Rightarrow> Inl e
                     | Inr end_date \<Rightarrow> Inr (start_date, end_date)))))"

subsection \<open>The strings that the task builds\<close>

text \<open>The two f-strings passed to \<open>logging.info\<close>.\<close>

definition START_MARK :: string where
  "START_MARK = [CHR 0xF0, CHR 0x9F, CHR 0x92, CHR 0xBB]"

definition SUCCESS_MARK :: string where
  "SUCCESS_MARK = [CHR 0xE2, CHR 0x9C, CHR 0x85]"

definition start_message :: "string \<Rightarrow> string \<Rightarrow> string" where
  "start_message start_date end_date =
     START_MARK @ '' Start load for dates: '' @ start_date @ ''/'' @ end_date"

definition success_message :: "string \<Rightarrow> string" where
  "success_message start_date =
     SUCCESS_MARK @ '' Download for date success: '' @ start_date"

text \<open>
  The f-string passed to \<open>con.sql\<close>, line by line. \<open>read_url\<close> and \<open>copy_target\<close> are the
  two quoted literals of its last statement.
\<close>

definition read_url :: "string \<Rightarrow> string \<Rightarrow> string" where
  "read_url start_date end_date =
     ''https://earthquake.usgs.gov/fdsnws/event/1/query?format=csv&starttime=''
       @ start_date @ ''&endtime='' @ end_date"

definition copy_target :: "string \<Rightarrow> string" where
  "copy_target start_date =
     ''s3://prod/'' @ LAYER @ ''/'' @ SOURCE @ ''/'' @ start_date @ ''/''
       @ start_date @ ''_00-00-00.gz.parquet''"

definition session_settings :: "secrets \<Rightarrow> string" where
  "session_settings sec =
     ''--sql'' @ NL @
     ''        SET TIMEZONE='UTC';'' @ NL @
     ''        INSTALL httpfs;'' @ NL @
     ''        LOAD httpfs;'' @ NL @
     ''        SET s3_url_style = 'path';'' @ NL @
     ''        SET s3_endpoint = 'minio:9000';'' @ NL @
     ''        SET s3_access_key_id = '' @ SQ @ ACCESS_KEY sec @ SQ @ '';'' @ NL @
     ''        SET s3_secret_access_key = '' @ SQ @ SECRET_KEY sec @ SQ @ '';'' @ NL @
     ''        SET s3_use_ssl = FALSE;'' @ NL @
     NL"

definition copy_statement :: "string \<Rightarrow> string \<Rightarrow> string" where
  "copy_statement start_date end_date =
     ''        COPY'' @ NL @
     ''        ('' @ NL @
     ''            SELECT'' @ NL @
     ''                *'' @ NL @
     ''            FROM'' @ NL @
     ''                read_csv_auto('' @ SQ @ read_url start_date end_date @ SQ @ '') AS res'' @ NL @
     ''        ) TO '' @ SQ @ copy_target start_date @ SQ @ '';'' @ NL @
     NL @
     ''        ''"

definition sql_text :: "secrets \<Rightarrow> string \<Rightarrow> string \<Rightarrow> string" where
  "sql_text sec start_date end_date =
     session_settings sec @ copy_statement start_date end_date"

subsection \<open>The effects of a run\<close>

text \<open>
  What a run does to the outside is recorded as a trace of calls, oldest first:
  \<open>logging.info\<close>, \<open>duckdb.connect\<close>, \<open>con.sql\<close> with its text, \<open>con.close\<close>. The object
  store maps a path to the content of the object there.
\<close>

datatype event =
    LogInfo string
  | Connect
  | Sql string
  | Close

type_synonym object_store = "string \<rightharpoonup> string"

record world =
  trace :: "event list"
  objects :: object_store

text \<open>
  DuckDB is outside the module and is a parameter: whether \<open>connect\<close> and \<open>close\<close> raise,
  and what executing a text does, to the object store and as an exception if any. The
  remote endpoint is reached only through \<open>sql_run\<close>.
\<close>

record engine =
  connect_raises :: "exn option"
  sql_run :: "string \<Rightarrow> object_store \<Rightarrow> exn option \<times> object_store"
  close_raises :: "exn option"

definition emit :: "event \<Rightarrow> world \<Rightarrow> world" where
  "emit ev w = w\<lparr>trace := trace w @ [ev]\<rparr>"

subsection \<open>\<open>get_and_transfer_api_data_to_s3\<close>\<close>

text \<open>
  The function has no \<open>try\<close>, \<open>with\<close> or \<open>except\<close>: an exception raised by a call leaves
  the function at that call. It returns \<open>None\<close>, here \<open>Inr ()\<close>.
\<close>

definition get_and_transfer_api_data_to_s3 ::
    "secrets \<Rightarrow> engine \<Rightarrow> context \<Rightarrow> world \<Rightarrow> (exn + unit) \<times> world" where
  "get_and_transfer_api_data_to_s3 sec eng ctx w =
     (case get_dates ctx of
        Inl e \<Rightarrow> (Inl e, w)
      | Inr (start_date, end_date) \<Rightarrow>
          (let w1 = emit (LogInfo (start_message start_date end_date)) w;
               w2 = emit Connect w1
           in case connect_raises eng of
                Some e \<Rightarrow> (Inl e, w2)
              | None \<Rightarrow>
                  (let q = sql_text sec start_date end_date;
                       r = sql_run eng q (objects w2);
                       w3 = (emit (Sql q) w2)\<lparr>objects := snd r\<rparr>
                   in case fst r of
                        Some e \<Rightarrow> (Inl e, w3)
                      | None \<Rightarrow>
                          (let w4 = emit Close w3
                           in case close_raises eng of
                                Some e \<Rightarrow> (Inl e, w4)
                              | None \<Rightarrow>
                                  (Inr (), emit (LogInfo (success_message start_date)) w4)))))"

subsection \<open>The scheduling configuration\<close>

text \<open>\<open>pendulum.duration(hours=h)\<close>, in seconds.\<close>

definition duration_hours :: "nat \<Rightarrow> nat" where
  "duration_hours h = h * 3600"

record default_args =
  owner :: string
  start_date :: DateTime
  catchup :: bool
  retries :: nat
  retry_delay :: nat

text \<open>
  \<open>pendulum.datetime(2025, 5, 1, tz="Europe/Moscow")\<close>: midnight, three hours east of UTC.
\<close>

definition args :: default_args where
  "args =
     \<lparr> owner = OWNER,
       start_date = \<lparr> year = 2025, month = 5, day = 1, hour = 0, minute = 0, second = 0,
                      microsecond = 0, utc_offset = 10800 \<rparr>,
       catchup = True,
       retries = 3,
       retry_delay = duration_hours 1 \<rparr>"

text \<open>The keyword arguments of \<open>DAG(...)\<close>, the description apart.\<close>

record dag_config =
  dag_id :: string
  schedule_interval :: string
  dag_default_args :: default_args
  tags :: "string list"
  concurrency :: nat
  max_active_tasks :: nat
  max_active_runs :: nat

definition dag :: dag_config where
  "dag =
     \<lparr> dag_id = DAG_ID,
       schedule_interval = ''0 5 * * *'',
       dag_default_args = args,
       tags = [''s3'', ''raw''],
       concurrency = 1,
       max_active_tasks = 1,
       max_active_runs = 1 \<rparr>"

text \<open>
  A cron expression of five fields separated by one space, each \<open>*\<close> or a number:
  minute, hour, day of month, month, day of week. It fires at a minute of the calendar
  when every field matches.
\<close>

fun split_on :: "char \<Rightarrow> string \<Rightarrow> string list" where
  "split_on sep [] = [[]]"
| "split_on sep (c # r) =
     (if c = sep then [] # split_on sep r
      else (case split_on sep r of [] \<Rightarrow> [[c]] | f # fs \<Rightarrow> (c # f) # fs))"

definition cron_field_matches :: "string \<Rightarrow> nat \<Rightarrow> bool" where
  "cron_field_matches f v = (f = ''*'' \<or> f = dec v)"

definition cron_fires :: "string \<Rightarrow> nat \<Rightarrow> nat \<Rightarrow> nat \<Rightarrow> nat \<Rightarrow> nat \<Rightarrow> bool" where
  "cron_fires expr mi h dmon mo dow =
     (case split_on (CHR '' '') expr of
        [f1, f2, f3, f4, f5] \<Rightarrow>
          cron_field_matches f1 mi \<and> cron_field_matches f2 h \<and> cron_field_matches f3 dmon \<and>
          cron_field_matches f4 mo \<and> cron_field_matches f5 dow
      | _ \<Rightarrow> False)"

section \<open>Notions used to state the properties\<close>

subsection \<open>Reading a date string\<close>

definition is_digit :: "char \<Rightarrow> bool" where
  "is_digit c = (c \<in> set ''0123456789'')"

definition digit_val :: "char \<Rightarrow> nat" where
  "digit_val c = of_char c - 48"

definition read_nat :: "string \<Rightarrow> nat" where
  "read_nat s = foldl (\<lambda>a c. 10 * a + digit_val c) 0 s"

text \<open>
  The shape \<open>YYYY-MM-DD\<close>: ten characters, hyphens at the positions 4 and 7, digits
  everywhere else.
\<close>

definition is_yyyy_mm_dd :: "string \<Rightarrow> bool" where
  "is_yyyy_mm_dd s =
     (length s = 10 \<and> s ! 4 = CHR ''-'' \<and> s ! 7 = CHR ''-'' \<and>
      list_all is_digit (take 4 s @ take 2 (drop 5 s) @ drop 8 s))"

text \<open>The year, the month and the day that a string of that shape denotes.\<close>

definition date_fields :: "string \<Rightarrow> nat \<times> nat \<times> nat" where
  "date_fields s = (read_nat (take 4 s), read_nat (take 2 (drop 5 s)), read_nat (drop 8 s))"

subsection \<open>Observing a run\<close>

text \<open>The events that a run appends to the trace.\<close>

definition effects :: "secrets \<Rightarrow> engine \<Rightarrow> context \<Rightarrow> world \<Rightarrow> event list" where
  "effects sec eng ctx w =
     drop (length (trace w)) (trace (snd (get_and_transfer_api_data_to_s3 sec eng ctx w)))"

fun log_lines :: "event list \<Rightarrow> string list" where
  "log_lines [] = []"
| "log_lines (LogInfo s # evs) = s # log_lines evs"
| "log_lines (_ # evs) = log_lines evs"

fun statements :: "event list \<Rightarrow> string list" where
  "statements [] = []"
| "statements (Sql q # evs) = q # statements evs"
| "statements (_ # evs) = statements evs"

text \<open>
  A text reads the URL \<open>u\<close> when it contains the call \<open>read_csv_auto('u')\<close>; it copies to
  the path \<open>p\<close> when it closes with \<open>) TO 'p';\<close> and the blank tail of the f-string.
\<close>

definition reads_from :: "string \<Rightarrow> string \<Rightarrow> bool" where
  "reads_from q u = sublist (''read_csv_auto('' @ SQ @ u @ SQ @ '')'') q"

definition copies_to :: "string \<Rightarrow> string \<Rightarrow> bool" where
  "copies_to q p = suffix ('') TO '' @ SQ @ p @ SQ @ '';'' @ NL @ NL @ ''        '') q"

text \<open>
  Modelled from the spec: the underlying write mechanism (DuckDB's \<open>COPY\<close> to the object
  store, which is not part of the repository) is expected to be atomic-or-nothing: an
  execution that raises leaves every object as it was.
\<close>

definition atomic_write :: "engine \<Rightarrow> bool" where
  "atomic_write eng = (\<forall>q st. fst (sql_run eng q st) \<noteq> None \<longrightarrow> snd (sql_run eng q st) = st)"

subsection \<open>Concrete runs\<close>

text \<open>
  The first interval of the schedule: 05:00 in Moscow on 1 May 2025 is 02:00 UTC, and
  Airflow hands the bounds over in UTC.
\<close>

definition utc_0200 :: "nat \<Rightarrow> nat \<Rightarrow> nat \<Rightarrow> DateTime" where
  "utc_0200 y m d =
     \<lparr> year = y, month = m, day = d, hour = 2, minute = 0, second = 0, microsecond = 0,
       utc_offset = 0 \<rparr>"

definition ctx_may_1 :: "context" where
  "ctx_may_1 =
     [''data_interval_start'' \<mapsto> DateTimeV (utc_0200 2025 5 1),
      ''data_interval_end'' \<mapsto> DateTimeV (utc_0200 2025 5 2)]"

definition ctx_may_1_to_3 :: "context" where
  "ctx_may_1_to_3 =
     [''data_interval_start'' \<mapsto> DateTimeV (utc_0200 2025 5 1),
      ''data_interval_end'' \<mapsto> DateTimeV (utc_0200 2025 5 3)]"

definition ctx_may_1_ds :: "context" where
  "ctx_may_1_ds = ctx_may_1(''ds'' \<mapsto> StrV (Abs_plain_str ''2025-05-01''))"

definition ctx_year_999 :: "context" where
  "ctx_year_999 =
     [''data_interval_start'' \<mapsto> DateTimeV (utc_0200 999 12 31),
      ''data_interval_end'' \<mapsto> DateTimeV (utc_0200 1000 1 1)]"

definition ctx_no_end :: "context" where
  "ctx_no_end = [''data_interval_start'' \<mapsto> DateTimeV (utc_0200 2025 5 1)]"

definition secrets_0 :: secrets where
  "secrets_0 = \<lparr> ACCESS_KEY = ''minioadmin'', SECRET_KEY = ''minioadmin'' \<rparr>"

definition world_0 :: world where
  "world_0 = \<lparr> trace = [], objects = Map.empty \<rparr>"

text \<open>An engine that stores the text it ran under a fixed path, and engines that raise.\<close>

definition engine_ok :: engine where
  "engine_ok =
     \<lparr> connect_raises = None,
       sql_run = (\<lambda>q st. (None, st(''s3://prod/last'' \<mapsto> q))),
       close_raises = None \<rparr>"

definition engine_http_error :: engine where
  "engine_http_error =
     \<lparr> connect_raises = None,
       sql_run = (\<lambda>q st. (Some (DuckDBError ''HTTP 400''), st)),
       close_raises = None \<rparr>"

definition engine_connect_error :: engine where
  "engine_connect_error = engine_ok \<lparr> connect_raises := Some (DuckDBError ''connect'') \<rparr>"

definition engine_close_error :: engine where
  "engine_close_error = engine_ok \<lparr> close_raises := Some (DuckDBError ''close'') \<rparr>"

section \<open>Auxiliary facts\<close>

lemma below_ten: "n < 10 \<Longrightarrow> n \<in> {0, 1, 2, 3, 4, 5, 6, 7, 8, 9 :: nat}"
  by auto

lemma is_digit_digit_char: "n < 10 \<Longrightarrow> is_digit (digit_char n)"
  using below_ten [of n] by (auto simp: is_digit_def digit_char_def)

lemma digit_val_digit_char: "n < 10 \<Longrightarrow> digit_val (digit_char n) = n"
  using below_ten [of n] by (auto simp: digit_val_def digit_char_def)

lemma digit_char_0: "digit_char 0 = CHR ''0''"
  by (simp add: digit_char_def)

lemma dec_lt10: "n < 10 \<Longrightarrow> dec n = [digit_char n]"
  by (simp add: dec.simps)

lemma dec_lt100:
  "10 \<le> n \<Longrightarrow> n < 100 \<Longrightarrow> dec n = [digit_char (n div 10), digit_char (n mod 10)]"
  by (subst dec.simps) (simp add: dec_lt10)

lemma dec_lt1000:
  "100 \<le> n \<Longrightarrow> n < 1000 \<Longrightarrow>
   dec n = [digit_char (n div 100), digit_char (n div 10 mod 10), digit_char (n mod 10)]"
  by (subst dec.simps) (simp add: dec_lt100 div_mult2_eq [symmetric])

lemma dec_lt10000:
  "1000 \<le> n \<Longrightarrow> n < 10000 \<Longrightarrow>
   dec n = [digit_char (n div 1000), digit_char (n div 100 mod 10),
            digit_char (n div 10 mod 10), digit_char (n mod 10)]"
  by (subst dec.simps) (simp add: dec_lt1000 div_mult2_eq [symmetric])

lemma dec_nonempty: "dec n \<noteq> []"
  by (subst dec.simps) simp

lemma dec_single: "dec n = [c] \<longleftrightarrow> n < 10 \<and> c = digit_char n"
proof (cases "n < 10")
  case True
  then show ?thesis by (auto simp: dec_lt10)
next
  case False
  have "dec n = dec (n div 10) @ [digit_char (n mod 10)]"
    using False by (subst dec.simps) simp
  with False dec_nonempty [of "n div 10"] show ?thesis
    by (cases "dec (n div 10)") auto
qed

lemma replicate_small:
  "replicate (Suc 0) x = [x]" "replicate 2 x = [x, x]" "replicate 3 x = [x, x, x]"
  by (simp_all add: numeral_2_eq_2 numeral_3_eq_3)

lemma zero_pad_2: "n < 100 \<Longrightarrow> zero_pad 2 n = [digit_char (n div 10), digit_char (n mod 10)]"
  by (cases "n < 10") (simp_all add: zero_pad_def dec_lt10 dec_lt100 digit_char_0 replicate_small)

lemma format_yyyy_mm_dd:
  "format_datetime dt ''YYYY-MM-DD'' =
     dec (year dt) @ ''-'' @ zero_pad 2 (month dt) @ ''-'' @ zero_pad 2 (day dt)"
  by (simp add: format_datetime.simps)

lemma days_in_month_le: "days_in_month y m \<le> 31"
  by (simp add: days_in_month_def)

lemma format_valid:
  assumes "valid_datetime dt" and "1000 \<le> year dt"
  shows "format_datetime dt ''YYYY-MM-DD'' =
     [digit_char (year dt div 1000), digit_char (year dt div 100 mod 10),
      digit_char (year dt div 10 mod 10), digit_char (year dt mod 10), CHR ''-'',
      digit_char (month dt div 10), digit_char (month dt mod 10), CHR ''-'',
      digit_char (day dt div 10), digit_char (day dt mod 10)]"
proof -
  have y: "year dt < 10000" and m: "month dt < 100"
    using assms by (simp_all add: valid_datetime_def)
  have "day dt \<le> 31"
    using assms days_in_month_le [of "year dt" "month dt"] by (simp add: valid_datetime_def)
  then have d: "day dt < 100" by simp
  show ?thesis
    unfolding format_yyyy_mm_dd
    by (simp add: dec_lt10000 [OF assms(2) y] zero_pad_2 [OF m] zero_pad_2 [OF d])
qed

lemma format_valid_shape:
  assumes "valid_datetime dt" and "1000 \<le> year dt"
  shows "is_yyyy_mm_dd (format_datetime dt ''YYYY-MM-DD'')"
proof -
  have y: "year dt < 10000" and m: "month dt < 100"
    using assms by (simp_all add: valid_datetime_def)
  have "day dt \<le> 31"
    using assms days_in_month_le [of "year dt" "month dt"] by (simp add: valid_datetime_def)
  then have d: "day dt < 100" by simp
  have "year dt div 1000 < 10" "month dt div 10 < 10" "day dt div 10 < 10"
    using y m d by simp_all
  then show ?thesis
    unfolding format_valid [OF assms] by (simp add: is_yyyy_mm_dd_def is_digit_digit_char)
qed

lemma four_digits:
  "1000 * (n div 1000) + 100 * (n div 100 mod 10) + 10 * (n div 10 mod 10) + n mod 10 = (n::nat)"
proof -
  have a: "n mod 100 = 10 * (n div 10 mod 10) + n mod 10"
    using mod_mult2_eq [of n 10 10] by simp
  have b: "n mod 1000 = 100 * (n div 100 mod 10) + n mod 100"
    using mod_mult2_eq [of n 100 10] by simp
  have c: "n = 1000 * (n div 1000) + n mod 1000"
    by simp
  from a b c show ?thesis
    by linarith
qed

lemma two_digits: "10 * (n div 10) + n mod 10 = (n::nat)"
  by presburger

lemma format_valid_fields:
  assumes "valid_datetime dt" and "1000 \<le> year dt"
  shows "date_fields (format_datetime dt ''YYYY-MM-DD'') = (year dt, month dt, day dt)"
proof -
  have y: "year dt < 10000" and m: "month dt < 100"
    using assms by (simp_all add: valid_datetime_def)
  have "day dt \<le> 31"
    using assms days_in_month_le [of "year dt" "month dt"] by (simp add: valid_datetime_def)
  then have d: "day dt < 100" by simp
  have "year dt div 1000 < 10" "month dt div 10 < 10" "day dt div 10 < 10"
    using y m d by simp_all
  then show ?thesis
    unfolding format_valid [OF assms]
    by (simp add: date_fields_def read_nat_def digit_val_digit_char two_digits four_digits)
qed

lemma get_dates_datetimes:
  assumes "ctx ''data_interval_start'' = Some (DateTimeV s)"
    and "ctx ''data_interval_end'' = Some (DateTimeV e)"
  shows "get_dates ctx = Inr (format_datetime s ''YYYY-MM-DD'', format_datetime e ''YYYY-MM-DD'')"
  using assms by (simp add: get_dates_def getitem_def call_format_def)

lemma valid_utc_0200_may: "d \<in> {1, 2, 3} \<Longrightarrow> valid_datetime (utc_0200 2025 5 d)"
  by (auto simp: valid_datetime_def utc_0200_def days_in_month_def)

lemma get_dates_may_1: "get_dates ctx_may_1 = Inr (''2025-05-01'', ''2025-05-02'')"
  using get_dates_datetimes [of ctx_may_1 "utc_0200 2025 5 1" "utc_0200 2025 5 2"]
  by (simp add: ctx_may_1_def utc_0200_def format_datetime.simps zero_pad_def dec.simps digit_char_def)

lemma get_dates_may_1_to_3: "get_dates ctx_may_1_to_3 = Inr (''2025-05-01'', ''2025-05-03'')"
  using get_dates_datetimes [of ctx_may_1_to_3 "utc_0200 2025 5 1" "utc_0200 2025 5 3"]
  by (simp add: ctx_may_1_to_3_def utc_0200_def format_datetime.simps zero_pad_def dec.simps digit_char_def)

lemma get_dates_year_999: "get_dates ctx_year_999 = Inr (''999-12-31'', ''1000-01-01'')"
  using get_dates_datetimes [of ctx_year_999 "utc_0200 999 12 31" "utc_0200 1000 1 1"]
  by (simp add: ctx_year_999_def utc_0200_def format_datetime.simps zero_pad_def dec.simps digit_char_def)

subsection \<open>The five ways a run ends\<close>

lemma run_dates_error:
  "get_dates ctx = Inl e \<Longrightarrow> get_and_transfer_api_data_to_s3 sec eng ctx w = (Inl e, w)"
  by (simp add: get_and_transfer_api_data_to_s3_def)

lemma run_connect_error:
  "get_dates ctx = Inr (sd, ed) \<Longrightarrow> connect_raises eng = Some e \<Longrightarrow>
   get_and_transfer_api_data_to_s3 sec eng ctx w =
     (Inl e, w\<lparr>trace := trace w @ [LogInfo (start_message sd ed), Connect]\<rparr>)"
  by (simp add: get_and_transfer_api_data_to_s3_def emit_def)

lemma run_sql_error:
  "get_dates ctx = Inr (sd, ed) \<Longrightarrow> connect_raises eng = None \<Longrightarrow>
   fst (sql_run eng (sql_text sec sd ed) (objects w)) = Some e \<Longrightarrow>
   get_and_transfer_api_data_to_s3 sec eng ctx w =
     (Inl e,
      w\<lparr>trace := trace w @ [LogInfo (start_message sd ed), Connect, Sql (sql_text sec sd ed)],
        objects := snd (sql_run eng (sql_text sec sd ed) (objects w))\<rparr>)"
  by (simp add: get_and_transfer_api_data_to_s3_def emit_def Let_def)

lemma run_close_error:
  "get_dates ctx = Inr (sd, ed) \<Longrightarrow> connect_raises eng = None \<Longrightarrow>
   fst (sql_run eng (sql_text sec sd ed) (objects w)) = None \<Longrightarrow>
   close_raises eng = Some e \<Longrightarrow>
   get_and_transfer_api_data_to_s3 sec eng ctx w =
     (Inl e,
      w\<lparr>trace := trace w @ [LogInfo (start_message sd ed), Connect, Sql (sql_text sec sd ed),
                             Close],
        objects := snd (sql_run eng (sql_text sec sd ed) (objects w))\<rparr>)"
  by (simp add: get_and_transfer_api_data_to_s3_def emit_def Let_def)

lemma run_success:
  "get_dates ctx = Inr (sd, ed) \<Longrightarrow> connect_raises eng = None \<Longrightarrow>
   fst (sql_run eng (sql_text sec sd ed) (objects w)) = None \<Longrightarrow>
   close_raises eng = None \<Longrightarrow>
   get_and_transfer_api_data_to_s3 sec eng ctx w =
     (Inr (),
      w\<lparr>trace := trace w @ [LogInfo (start_message sd ed), Connect, Sql (sql_text sec sd ed),
                             Close, LogInfo (success_message sd)],
        objects := snd (sql_run eng (sql_text sec sd ed) (objects w))\<rparr>)"
  by (simp add: get_and_transfer_api_data_to_s3_def emit_def Let_def)

lemma run_success_iff:
  assumes "get_dates ctx = Inr (sd, ed)"
  shows "fst (get_and_transfer_api_data_to_s3 sec eng ctx w) = Inr () \<longleftrightarrow>
     connect_raises eng = None \<and> fst (sql_run eng (sql_text sec sd ed) (objects w)) = None \<and>
     close_raises eng = None"
  using assms
  by (auto simp: get_and_transfer_api_data_to_s3_def Let_def emit_def split: option.splits)

lemma effects_connected:
  assumes "get_dates ctx = Inr (sd, ed)" and "connect_raises eng = None"
  shows "statements (effects sec eng ctx w) = [sql_text sec sd ed]"
proof (cases "fst (sql_run eng (sql_text sec sd ed) (objects w))")
  case (Some e)
  then show ?thesis
    by (simp add: effects_def run_sql_error [OF assms])
next
  case None
  then show ?thesis
    by (cases "close_raises eng")
      (simp_all add: effects_def run_close_error [OF assms] run_success [OF assms])
qed

subsection \<open>The parts of the text\<close>

lemma sql_text_copies_to: "copies_to (sql_text sec sd ed) (copy_target sd)"
proof -
  have "sql_text sec sd ed =
      (session_settings sec @
       ''        COPY'' @ NL @
       ''        ('' @ NL @
       ''            SELECT'' @ NL @
       ''                *'' @ NL @
       ''            FROM'' @ NL @
       ''                read_csv_auto('' @ SQ @ read_url sd ed @ SQ @ '') AS res'' @ NL @
       ''        '') @
      ('') TO '' @ SQ @ copy_target sd @ SQ @ '';'' @ NL @ NL @ ''        '')"
    by (simp add: sql_text_def copy_statement_def)
  then show ?thesis
    unfolding copies_to_def by (metis suffixI)
qed

lemma sql_text_reads_from: "reads_from (sql_text sec sd ed) (read_url sd ed)"
proof -
  have "sql_text sec sd ed =
      (session_settings sec @
       ''        COPY'' @ NL @
       ''        ('' @ NL @
       ''            SELECT'' @ NL @
       ''                *'' @ NL @
       ''            FROM'' @ NL @
       ''                '') @
      (''read_csv_auto('' @ SQ @ read_url sd ed @ SQ @ '')'') @
      ('' AS res'' @ NL @
       ''        ) TO '' @ SQ @ copy_target sd @ SQ @ '';'' @ NL @ NL @ ''        '')"
    by (simp add: sql_text_def copy_statement_def)
  then show ?thesis
    unfolding reads_from_def sublist_def by blast
qed

section \<open>Properties\<close>

text \<open>
  C1. The path that the statement copies to is
  \<open>s3://prod/raw/earthquake/{start_date}/{start_date}_00-00-00.gz.parquet\<close>, a function of
  the start date alone with the constants \<open>LAYER\<close> and \<open>SOURCE\<close>; for 2025-05-01 it is
  \<open>s3://prod/raw/earthquake/2025-05-01/2025-05-01_00-00-00.gz.parquet\<close>. Any two runs that
  compute the same start date and reach \<open>con.sql\<close> submit one text each, and both texts
  copy to that same path, whatever the end dates, the secrets, the engines and the worlds
  are.
\<close>

theorem copy_target_determined:
  "copy_target sd = ''s3://prod/raw/earthquake/'' @ sd @ ''/'' @ sd @ ''_00-00-00.gz.parquet'' \<and>
   copy_target ''2025-05-01'' =
     ''s3://prod/raw/earthquake/2025-05-01/2025-05-01_00-00-00.gz.parquet'' \<and>
   (get_dates c1 = Inr (sd, e1) \<and> connect_raises g1 = None \<and>
    get_dates c2 = Inr (sd, e2) \<and> connect_raises g2 = None \<longrightarrow>
      statements (effects s1 g1 c1 w1) = [sql_text s1 sd e1] \<and>
      copies_to (sql_text s1 sd e1) (copy_target sd) \<and>
      statements (effects s2 g2 c2 w2) = [sql_text s2 sd e2] \<and>
      copies_to (sql_text s2 sd e2) (copy_target sd))"
proof -
  have a: "copy_target sd =
      ''s3://prod/raw/earthquake/'' @ sd @ ''/'' @ sd @ ''_00-00-00.gz.parquet''"
    by (simp add: copy_target_def LAYER_def SOURCE_def)
  have b: "copy_target ''2025-05-01'' =
      ''s3://prod/raw/earthquake/2025-05-01/2025-05-01_00-00-00.gz.parquet''"
    by (simp add: copy_target_def LAYER_def SOURCE_def)
  have c: "statements (effects s g c w) = [sql_text s sd e]"
    if "get_dates c = Inr (sd, e)" and "connect_raises g = None" for s g c w e
    using that by (rule effects_connected)
  from a b c sql_text_copies_to show ?thesis
    by blast
qed

theorem copy_target_determined_witness:
  "get_dates ctx_may_1 = Inr (''2025-05-01'', ''2025-05-02'') \<and>
   connect_raises engine_ok = None \<and>
   get_dates ctx_may_1_to_3 = Inr (''2025-05-01'', ''2025-05-03'') \<and>
   connect_raises engine_http_error = None \<and>
   statements (effects secrets_0 engine_ok ctx_may_1 world_0) =
     [sql_text secrets_0 ''2025-05-01'' ''2025-05-02''] \<and>
   copies_to (sql_text secrets_0 ''2025-05-01'' ''2025-05-02'')
     ''s3://prod/raw/earthquake/2025-05-01/2025-05-01_00-00-00.gz.parquet'' \<and>
   statements (effects secrets_0 engine_http_error ctx_may_1_to_3 world_0) =
     [sql_text secrets_0 ''2025-05-01'' ''2025-05-03''] \<and>
   copies_to (sql_text secrets_0 ''2025-05-01'' ''2025-05-03'')
     ''s3://prod/raw/earthquake/2025-05-01/2025-05-01_00-00-00.gz.parquet''"
  using copy_target_determined [of "''2025-05-01''" ctx_may_1 "''2025-05-02''" engine_ok
      ctx_may_1_to_3 "''2025-05-03''" engine_http_error secrets_0 world_0 secrets_0 world_0]
  by (simp add: get_dates_may_1 get_dates_may_1_to_3 engine_ok_def engine_http_error_def
      copy_target_def LAYER_def SOURCE_def)

text \<open>
  C2. The URL that the statement reads is the fixed endpoint with the start date after
  \<open>starttime=\<close> and the end date after \<open>endtime=\<close>, both copied as they are. For the
  interval from 2025-05-01 to 2025-05-02 the run computes these two dates, the URL is
  \<open>https://earthquake.usgs.gov/fdsnws/event/1/query?format=csv&starttime=2025-05-01&endtime=2025-05-02\<close>
  and the one text that the run submits reads it.
\<close>

theorem read_url_value:
  "read_url sd ed =
     ''https://earthquake.usgs.gov/fdsnws/event/1/query?format=csv&starttime='' @ sd @
     ''&endtime='' @ ed \<and>
   reads_from (sql_text sec sd ed) (read_url sd ed) \<and>
   get_dates ctx_may_1 = Inr (''2025-05-01'', ''2025-05-02'') \<and>
   read_url ''2025-05-01'' ''2025-05-02'' =
     ''https://earthquake.usgs.gov/fdsnws/event/1/query?format=csv&starttime=2025-05-01&endtime=2025-05-02'' \<and>
   statements (effects sec engine_ok ctx_may_1 w) = [sql_text sec ''2025-05-01'' ''2025-05-02''] \<and>
   reads_from (sql_text sec ''2025-05-01'' ''2025-05-02'')
     ''https://earthquake.usgs.gov/fdsnws/event/1/query?format=csv&starttime=2025-05-01&endtime=2025-05-02''"
proof -
  have u: "read_url ''2025-05-01'' ''2025-05-02'' =
     ''https://earthquake.usgs.gov/fdsnws/event/1/query?format=csv&starttime=2025-05-01&endtime=2025-05-02''"
    by (simp add: read_url_def)
  have r: "reads_from (sql_text sec ''2025-05-01'' ''2025-05-02'')
      (read_url ''2025-05-01'' ''2025-05-02'')"
    by (rule sql_text_reads_from)
  have s: "statements (effects sec engine_ok ctx_may_1 w) =
      [sql_text sec ''2025-05-01'' ''2025-05-02'']"
    by (rule effects_connected [OF get_dates_may_1]) (simp add: engine_ok_def)
  have g: "read_url sd ed =
     ''https://earthquake.usgs.gov/fdsnws/event/1/query?format=csv&starttime='' @ sd @
     ''&endtime='' @ ed"
    by (simp add: read_url_def)
  from g sql_text_reads_from [of sec sd ed] get_dates_may_1 u s r show ?thesis
    by (simp only: simp_thms)
qed

text \<open>
  C3, as the claim states it, fails: when the statement raises, the exception leaves the
  function at \<open>con.sql\<close> and \<open>con.close\<close> is not reached. Here the engine answers the
  statement with an HTTP error: the session was opened, the run ends with that error and
  the trace has no \<open>Close\<close>.
\<close>

theorem close_skipped_counterexample:
  "fst (get_and_transfer_api_data_to_s3 secrets_0 engine_http_error ctx_may_1 world_0) =
     Inl (DuckDBError ''HTTP 400'') \<and>
   effects secrets_0 engine_http_error ctx_may_1 world_0 =
     [LogInfo (start_message ''2025-05-01'' ''2025-05-02''), Connect,
      Sql (sql_text secrets_0 ''2025-05-01'' ''2025-05-02'')] \<and>
   Close \<notin> set (effects secrets_0 engine_http_error ctx_may_1 world_0)"
proof -
  have c: "connect_raises engine_http_error = None"
    by (simp add: engine_http_error_def)
  have s: "fst (sql_run engine_http_error (sql_text secrets_0 ''2025-05-01'' ''2025-05-02'')
      (objects world_0)) = Some (DuckDBError ''HTTP 400'')"
    by (simp add: engine_http_error_def)
  show ?thesis
    by (simp add: effects_def run_sql_error [OF get_dates_may_1 c s])
qed

text \<open>
  C3, amended. In a run that has opened the session, \<open>con.close\<close> is reached exactly when
  the statement returns, and then once; when the statement raises, it is not reached.
\<close>

theorem close_reached_iff_statement_returns:
  assumes "get_dates ctx = Inr (sd, ed)" and "connect_raises eng = None"
  shows "(Close \<in> set (effects sec eng ctx w) \<longleftrightarrow>
            fst (sql_run eng (sql_text sec sd ed) (objects w)) = None) \<and>
         length (filter (\<lambda>ev. ev = Close) (effects sec eng ctx w)) =
           (if fst (sql_run eng (sql_text sec sd ed) (objects w)) = None then 1 else 0)"
proof (cases "fst (sql_run eng (sql_text sec sd ed) (objects w))")
  case (Some e)
  then show ?thesis
    by (simp add: effects_def run_sql_error [OF assms])
next
  case None
  then show ?thesis
    by (cases "close_raises eng")
      (simp_all add: effects_def run_close_error [OF assms] run_success [OF assms])
qed

theorem close_reached_iff_statement_returns_witness:
  "get_dates ctx_may_1 = Inr (''2025-05-01'', ''2025-05-02'') \<and>
   connect_raises engine_ok = None \<and>
   fst (sql_run engine_ok (sql_text secrets_0 ''2025-05-01'' ''2025-05-02'') (objects world_0)) =
     None \<and>
   Close \<in> set (effects secrets_0 engine_ok ctx_may_1 world_0) \<and>
   length (filter (\<lambda>ev. ev = Close) (effects secrets_0 engine_ok ctx_may_1 world_0)) = 1"
proof -
  have c: "connect_raises engine_ok = None"
    by (simp add: engine_ok_def)
  have s: "fst (sql_run engine_ok (sql_text secrets_0 ''2025-05-01'' ''2025-05-02'')
      (objects world_0)) = None"
    by (simp add: engine_ok_def)
  from close_reached_iff_statement_returns [OF get_dates_may_1 c, of secrets_0 world_0]
    get_dates_may_1 c s
  show ?thesis
    by simp
qed

text \<open>
  C4. Let the write mechanism be atomic-or-nothing, as the specification expects of it.
  When the statement raises (the remote read failed, or the storage configuration was
  refused), the run ends with that exception and every object of the store, the target
  of the copy among them, is as it was before the run: the task does nothing to the
  store besides the one statement.
\<close>

theorem failed_statement_keeps_objects:
  assumes "atomic_write eng"
    and "get_dates ctx = Inr (sd, ed)" and "connect_raises eng = None"
    and "fst (sql_run eng (sql_text sec sd ed) (objects w)) = Some e"
  shows "fst (get_and_transfer_api_data_to_s3 sec eng ctx w) = Inl e \<and>
         objects (snd (get_and_transfer_api_data_to_s3 sec eng ctx w)) = objects w \<and>
         objects (snd (get_and_transfer_api_data_to_s3 sec eng ctx w)) (copy_target sd) =
           objects w (copy_target sd)"
proof -
  from assms(1,4) have "snd (sql_run eng (sql_text sec sd ed) (objects w)) = objects w"
    by (simp add: atomic_write_def)
  then show ?thesis
    by (simp add: run_sql_error [OF assms(2,3,4)])
qed

theorem failed_statement_keeps_objects_witness:
  "atomic_write engine_http_error \<and>
   get_dates ctx_may_1 = Inr (''2025-05-01'', ''2025-05-02'') \<and>
   connect_raises engine_http_error = None \<and>
   fst (sql_run engine_http_error (sql_text secrets_0 ''2025-05-01'' ''2025-05-02'')
     (objects world_0)) = Some (DuckDBError ''HTTP 400'') \<and>
   fst (get_and_transfer_api_data_to_s3 secrets_0 engine_http_error ctx_may_1 world_0) =
     Inl (DuckDBError ''HTTP 400'') \<and>
   objects (snd (get_and_transfer_api_data_to_s3 secrets_0 engine_http_error ctx_may_1 world_0)) =
     objects world_0"
proof -
  have a: "atomic_write engine_http_error"
    by (simp add: atomic_write_def engine_http_error_def)
  have c: "connect_raises engine_http_error = None"
    by (simp add: engine_http_error_def)
  have s: "fst (sql_run engine_http_error (sql_text secrets_0 ''2025-05-01'' ''2025-05-02'')
      (objects world_0)) = Some (DuckDBError ''HTTP 400'')"
    by (simp add: engine_http_error_def)
  from failed_statement_keeps_objects [OF a get_dates_may_1 c s] a get_dates_may_1 c s
  show ?thesis
    by simp
qed

text \<open>
  C5. Whichever call raises first (\<open>get_dates\<close>, \<open>duckdb.connect\<close>, \<open>con.sql\<close>, \<open>con.close\<close>),
  the run ends with exactly that exception; and a run that ends with an exception ends
  with the one that one of these calls raised. Nothing is caught, replaced or turned
  into a normal return.
\<close>

theorem exceptions_propagate:
  "(get_dates ctx = Inl e \<longrightarrow> fst (get_and_transfer_api_data_to_s3 sec eng ctx w) = Inl e) \<and>
   (get_dates ctx = Inr (sd, ed) \<and> connect_raises eng = Some e \<longrightarrow>
      fst (get_and_transfer_api_data_to_s3 sec eng ctx w) = Inl e) \<and>
   (get_dates ctx = Inr (sd, ed) \<and> connect_raises eng = None \<and>
    fst (sql_run eng (sql_text sec sd ed) (objects w)) = Some e \<longrightarrow>
      fst (get_and_transfer_api_data_to_s3 sec eng ctx w) = Inl e) \<and>
   (get_dates ctx = Inr (sd, ed) \<and> connect_raises eng = None \<and>
    fst (sql_run eng (sql_text sec sd ed) (objects w)) = None \<and> close_raises eng = Some e \<longrightarrow>
      fst (get_and_transfer_api_data_to_s3 sec eng ctx w) = Inl e) \<and>
   (fst (get_and_transfer_api_data_to_s3 sec eng ctx w) = Inl e \<longrightarrow>
      get_dates ctx = Inl e \<or> connect_raises eng = Some e \<or>
      (\<exists>sd' ed'. get_dates ctx = Inr (sd', ed') \<and>
         fst (sql_run eng (sql_text sec sd' ed') (objects w)) = Some e) \<or>
      close_raises eng = Some e)"
proof -
  have origin: "get_dates ctx = Inl e \<or> connect_raises eng = Some e \<or>
      (\<exists>sd' ed'. get_dates ctx = Inr (sd', ed') \<and>
         fst (sql_run eng (sql_text sec sd' ed') (objects w)) = Some e) \<or>
      close_raises eng = Some e"
    if r: "fst (get_and_transfer_api_data_to_s3 sec eng ctx w) = Inl e"
  proof (cases "get_dates ctx")
    case (Inl e')
    with r show ?thesis
      by (simp add: run_dates_error)
  next
    case (Inr p)
    obtain sd' ed' where p: "p = (sd', ed')"
      by (cases p)
    note d = Inr [unfolded p]
    show ?thesis
    proof (cases "connect_raises eng")
      case (Some e')
      with r show ?thesis
        by (simp add: run_connect_error [OF d])
    next
      case None
      note c = this
      show ?thesis
      proof (cases "fst (sql_run eng (sql_text sec sd' ed') (objects w))")
        case (Some e')
        with r d show ?thesis
          by (simp add: run_sql_error [OF d c])
      next
        case None
        with r show ?thesis
          by (cases "close_raises eng")
            (simp_all add: run_close_error [OF d c] run_success [OF d c])
      qed
    qed
  qed
  show ?thesis
    using origin
    by (simp add: run_dates_error run_connect_error run_sql_error run_close_error)
qed

theorem exceptions_propagate_witness:
  "get_dates ctx_no_end = Inl (KeyError ''data_interval_end'') \<and>
   fst (get_and_transfer_api_data_to_s3 secrets_0 engine_ok ctx_no_end world_0) =
     Inl (KeyError ''data_interval_end'') \<and>
   get_dates ctx_may_1 = Inr (''2025-05-01'', ''2025-05-02'') \<and>
   connect_raises engine_connect_error = Some (DuckDBError ''connect'') \<and>
   fst (get_and_transfer_api_data_to_s3 secrets_0 engine_connect_error ctx_may_1 world_0) =
     Inl (DuckDBError ''connect'') \<and>
   connect_raises engine_http_error = None \<and>
   fst (sql_run engine_http_error (sql_text secrets_0 ''2025-05-01'' ''2025-05-02'')
     (objects world_0)) = Some (DuckDBError ''HTTP 400'') \<and>
   fst (get_and_transfer_api_data_to_s3 secrets_0 engine_http_error ctx_may_1 world_0) =
     Inl (DuckDBError ''HTTP 400'') \<and>
   connect_raises engine_close_error = None \<and>
   fst (sql_run engine_close_error (sql_text secrets_0 ''2025-05-01'' ''2025-05-02'')
     (objects world_0)) = None \<and>
   close_raises engine_close_error = Some (DuckDBError ''close'') \<and>
   fst (get_and_transfer_api_data_to_s3 secrets_0 engine_close_error ctx_may_1 world_0) =
     Inl (DuckDBError ''close'')"
proof -
  have d: "get_dates ctx_no_end = Inl (KeyError ''data_interval_end'')"
    by (simp add: get_dates_def getitem_def call_format_def ctx_no_end_def)
  have e: "connect_raises engine_connect_error = Some (DuckDBError ''connect'')"
    "connect_raises engine_http_error = None"
    "fst (sql_run engine_http_error (sql_text secrets_0 ''2025-05-01'' ''2025-05-02'')
       (objects world_0)) = Some (DuckDBError ''HTTP 400'')"
    "connect_raises engine_close_error = None"
    "fst (sql_run engine_close_error (sql_text secrets_0 ''2025-05-01'' ''2025-05-02'')
       (objects world_0)) = None"
    "close_raises engine_close_error = Some (DuckDBError ''close'')"
    by (simp_all add: engine_connect_error_def engine_http_error_def engine_close_error_def
        engine_ok_def)
  from
    exceptions_propagate [of ctx_no_end "KeyError ''data_interval_end''" secrets_0 engine_ok
      world_0]
    exceptions_propagate [of ctx_may_1 "DuckDBError ''connect''" secrets_0
      engine_connect_error world_0 "''2025-05-01''" "''2025-05-02''"]
    exceptions_propagate [of ctx_may_1 "DuckDBError ''HTTP 400''" secrets_0
      engine_http_error world_0 "''2025-05-01''" "''2025-05-02''"]
    exceptions_propagate [of ctx_may_1 "DuckDBError ''close''" secrets_0
      engine_close_error world_0 "''2025-05-01''" "''2025-05-02''"]
    d e get_dates_may_1
  show ?thesis
    by simp
qed

text \<open>
  C6, as the claim states it, fails: the token \<open>YYYY\<close> of pendulum writes the year
  without padding. For the interval from 31 December 999 to 1 January 1000, both
  timestamps valid and the start before the end, the start date that \<open>get_dates\<close> returns
  has nine characters and is not of the shape \<open>YYYY-MM-DD\<close>.
\<close>

theorem get_dates_year_999_counterexample:
  "valid_datetime (utc_0200 999 12 31) \<and> valid_datetime (utc_0200 1000 1 1) \<and>
   ctx_year_999 ''data_interval_start'' = Some (DateTimeV (utc_0200 999 12 31)) \<and>
   ctx_year_999 ''data_interval_end'' = Some (DateTimeV (utc_0200 1000 1 1)) \<and>
   get_dates ctx_year_999 = Inr (''999-12-31'', ''1000-01-01'') \<and>
   \<not> is_yyyy_mm_dd ''999-12-31''"
proof -
  have v: "valid_datetime (utc_0200 999 12 31)" "valid_datetime (utc_0200 1000 1 1)"
    by (simp_all add: valid_datetime_def utc_0200_def days_in_month_def)
  have k: "ctx_year_999 ''data_interval_start'' = Some (DateTimeV (utc_0200 999 12 31))"
    "ctx_year_999 ''data_interval_end'' = Some (DateTimeV (utc_0200 1000 1 1))"
    by (simp_all add: ctx_year_999_def)
  have n: "\<not> is_yyyy_mm_dd ''999-12-31''"
    by (simp add: is_yyyy_mm_dd_def)
  from v k get_dates_year_999 n show ?thesis
    by (simp only: simp_thms)
qed

text \<open>
  C6, amended. When the context holds a valid \<open>DateTime\<close> with a year of four digits (1000
  to 9999) under each of the two keys, \<open>get_dates\<close> returns the pair (start date, end
  date), in that order; each string has the shape \<open>YYYY-MM-DD\<close> and denotes the year, the
  month and the day of its timestamp, as the timestamp carries them. This holds for every
  such pair of timestamps, so also for those with the start before the end; the
  intervals of this DAG begin in 2025.
\<close>

theorem get_dates_yyyy_mm_dd:
  assumes "ctx ''data_interval_start'' = Some (DateTimeV s)"
    and "ctx ''data_interval_end'' = Some (DateTimeV e)"
    and "valid_datetime s" and "valid_datetime e"
    and "1000 \<le> year s" and "1000 \<le> year e"
  shows "\<exists>start_date end_date.
           get_dates ctx = Inr (start_date, end_date) \<and>
           is_yyyy_mm_dd start_date \<and> date_fields start_date = (year s, month s, day s) \<and>
           is_yyyy_mm_dd end_date \<and> date_fields end_date = (year e, month e, day e)"
  using assms
  by (simp add: get_dates_datetimes format_valid_shape format_valid_fields)

theorem get_dates_yyyy_mm_dd_witness:
  "ctx_may_1 ''data_interval_start'' = Some (DateTimeV (utc_0200 2025 5 1)) \<and>
   ctx_may_1 ''data_interval_end'' = Some (DateTimeV (utc_0200 2025 5 2)) \<and>
   valid_datetime (utc_0200 2025 5 1) \<and> valid_datetime (utc_0200 2025 5 2) \<and>
   1000 \<le> year (utc_0200 2025 5 1) \<and> 1000 \<le> year (utc_0200 2025 5 2) \<and>
   get_dates ctx_may_1 = Inr (''2025-05-01'', ''2025-05-02'') \<and>
   (\<exists>start_date end_date.
      get_dates ctx_may_1 = Inr (start_date, end_date) \<and>
      is_yyyy_mm_dd start_date \<and> date_fields start_date = (2025, 5, 1) \<and>
      is_yyyy_mm_dd end_date \<and> date_fields end_date = (2025, 5, 2))"
proof -
  have a: "ctx_may_1 ''data_interval_start'' = Some (DateTimeV (utc_0200 2025 5 1))"
    and b: "ctx_may_1 ''data_interval_end'' = Some (DateTimeV (utc_0200 2025 5 2))"
    by (simp_all add: ctx_may_1_def)
  have c: "valid_datetime (utc_0200 2025 5 1)" and d: "valid_datetime (utc_0200 2025 5 2)"
    by (simp_all add: valid_utc_0200_may)
  have y: "1000 \<le> year (utc_0200 2025 5 1)" and z: "1000 \<le> year (utc_0200 2025 5 2)"
    by (simp_all add: utc_0200_def)
  from get_dates_yyyy_mm_dd [OF a b c d y z] a b c d y z get_dates_may_1 show ?thesis
    by (simp add: utc_0200_def)
qed

text \<open>
  C7, as the claim states it, fails: the one text that a run submits asks the engine for
  more than the read and the write. Ahead of the \<open>COPY\<close> it holds \<open>INSTALL httpfs;\<close> and
  \<open>LOAD httpfs;\<close> (the docstring of the task lists both as a step of its own), and
  installing an extension is an effect of the run that is neither a log line, nor the
  read of the URL, nor the write of the target. Here the run of the first interval
  returns normally and its text contains that request, in the part before the \<open>COPY\<close>.
\<close>

theorem install_request_counterexample:
  "fst (get_and_transfer_api_data_to_s3 secrets_0 engine_ok ctx_may_1 world_0) = Inr () \<and>
   statements (effects secrets_0 engine_ok ctx_may_1 world_0) =
     [session_settings secrets_0 @ copy_statement ''2025-05-01'' ''2025-05-02''] \<and>
   sublist (''INSTALL httpfs;'' @ [CHR 0x0A] @ ''        LOAD httpfs;'')
     (session_settings secrets_0)"
proof -
  have ok: "connect_raises engine_ok = None" "fst (sql_run engine_ok q st) = None"
    "close_raises engine_ok = None" for q st
    by (simp_all add: engine_ok_def)
  have r: "fst (get_and_transfer_api_data_to_s3 secrets_0 engine_ok ctx_may_1 world_0) = Inr ()"
    by (simp add: run_success [OF get_dates_may_1 ok])
  have s: "statements (effects secrets_0 engine_ok ctx_may_1 world_0) =
      [session_settings secrets_0 @ copy_statement ''2025-05-01'' ''2025-05-02'']"
    by (simp add: effects_connected [OF get_dates_may_1 ok(1)] sql_text_def)
  have "session_settings secrets_0 =
      (''--sql'' @ NL @ ''        SET TIMEZONE='UTC';'' @ NL @ ''        '') @
      (''INSTALL httpfs;'' @ [CHR 0x0A] @ ''        LOAD httpfs;'') @
      (NL @
       ''        SET s3_url_style = 'path';'' @ NL @
       ''        SET s3_endpoint = 'minio:9000';'' @ NL @
       ''        SET s3_access_key_id = '' @ SQ @ ACCESS_KEY secrets_0 @ SQ @ '';'' @ NL @
       ''        SET s3_secret_access_key = '' @ SQ @ SECRET_KEY secrets_0 @ SQ @ '';'' @ NL @
       ''        SET s3_use_ssl = FALSE;'' @ NL @
       NL)"
    by (simp add: session_settings_def NL_def)
  then have i: "sublist (''INSTALL httpfs;'' @ [CHR 0x0A] @ ''        LOAD httpfs;'')
      (session_settings secrets_0)"
    unfolding sublist_def by blast
  from r s i show ?thesis
    by (simp only: simp_thms)
qed

text \<open>
  C7, amended. A run that returns normally appends exactly five events to the trace: the
  start line, the opening of the session, one text submitted to it, the closing of the
  session and the success line. So it logs exactly two lines; the first opens with its
  marker and the second with its own, and both contain the start date. The one text is,
  character by character: the comment \<open>--sql\<close>; the setting of the time zone; the
  installation and the loading of the extension \<open>httpfs\<close>; five settings of the S3
  connection, with the two secrets; and one \<open>COPY\<close> that reads the one URL with the two
  dates and writes the one target path of the start date. The task does nothing more:
  the object store after the run is what the engine made of it in executing that text.
\<close>

theorem successful_run_effects:
  assumes "get_dates ctx = Inr (sd, ed)"
    and "fst (get_and_transfer_api_data_to_s3 sec eng ctx w) = Inr ()"
  shows "effects sec eng ctx w =
           [LogInfo (start_message sd ed), Connect, Sql (sql_text sec sd ed), Close,
            LogInfo (success_message sd)] \<and>
         log_lines (effects sec eng ctx w) =
           [[CHR 0xF0, CHR 0x9F, CHR 0x92, CHR 0xBB] @ '' Start load for dates: '' @ sd @
              ''/'' @ ed,
            [CHR 0xE2, CHR 0x9C, CHR 0x85] @ '' Download for date success: '' @ sd] \<and>
         length (log_lines (effects sec eng ctx w)) = 2 \<and>
         prefix START_MARK (start_message sd ed) \<and> sublist sd (start_message sd ed) \<and>
         prefix SUCCESS_MARK (success_message sd) \<and> sublist sd (success_message sd) \<and>
         statements (effects sec eng ctx w) = [sql_text sec sd ed] \<and>
         sql_text sec sd ed =
           ''--sql'' @ [CHR 0x0A] @
           ''        SET TIMEZONE='UTC';'' @ [CHR 0x0A] @
           ''        INSTALL httpfs;'' @ [CHR 0x0A] @
           ''        LOAD httpfs;'' @ [CHR 0x0A] @
           ''        SET s3_url_style = 'path';'' @ [CHR 0x0A] @
           ''        SET s3_endpoint = 'minio:9000';'' @ [CHR 0x0A] @
           ''        SET s3_access_key_id = '' @ [CHR 0x27] @ ACCESS_KEY sec @ [CHR 0x27] @
             '';'' @ [CHR 0x0A] @
           ''        SET s3_secret_access_key = '' @ [CHR 0x27] @ SECRET_KEY sec @ [CHR 0x27] @
             '';'' @ [CHR 0x0A] @
           ''        SET s3_use_ssl = FALSE;'' @ [CHR 0x0A] @
           [CHR 0x0A] @
           ''        COPY'' @ [CHR 0x0A] @
           ''        ('' @ [CHR 0x0A] @
           ''            SELECT'' @ [CHR 0x0A] @
           ''                *'' @ [CHR 0x0A] @
           ''            FROM'' @ [CHR 0x0A] @
           ''                read_csv_auto('' @ [CHR 0x27] @
             ''https://earthquake.usgs.gov/fdsnws/event/1/query?format=csv&starttime='' @ sd @
             ''&endtime='' @ ed @ [CHR 0x27] @ '') AS res'' @ [CHR 0x0A] @
           ''        ) TO '' @ [CHR 0x27] @
             ''s3://prod/raw/earthquake/'' @ sd @ ''/'' @ sd @ ''_00-00-00.gz.parquet'' @
             [CHR 0x27] @ '';'' @ [CHR 0x0A] @
           [CHR 0x0A] @
           ''        '' \<and>
         reads_from (sql_text sec sd ed)
           (''https://earthquake.usgs.gov/fdsnws/event/1/query?format=csv&starttime='' @ sd @
            ''&endtime='' @ ed) \<and>
         copies_to (sql_text sec sd ed)
           (''s3://prod/raw/earthquake/'' @ sd @ ''/'' @ sd @ ''_00-00-00.gz.parquet'') \<and>
         objects (snd (get_and_transfer_api_data_to_s3 sec eng ctx w)) =
           snd (sql_run eng (sql_text sec sd ed) (objects w))"
proof -
  from assms have ok: "connect_raises eng = None"
    "fst (sql_run eng (sql_text sec sd ed) (objects w)) = None" "close_raises eng = None"
    by (simp_all add: run_success_iff)
  note run = run_success [OF assms(1) ok]
  have ev: "effects sec eng ctx w =
      [LogInfo (start_message sd ed), Connect, Sql (sql_text sec sd ed), Close,
       LogInfo (success_message sd)]"
    by (simp add: effects_def run)
  have st: "objects (snd (get_and_transfer_api_data_to_s3 sec eng ctx w)) =
      snd (sql_run eng (sql_text sec sd ed) (objects w))"
    by (simp add: run)
  have p1: "prefix START_MARK (start_message sd ed)"
    unfolding start_message_def by (rule prefixI) (rule refl)
  have p2: "prefix SUCCESS_MARK (success_message sd)"
    unfolding success_message_def by (rule prefixI) (rule refl)
  have "start_message sd ed = (START_MARK @ '' Start load for dates: '') @ sd @ (''/'' @ ed)"
    by (simp add: start_message_def)
  then have s1: "sublist sd (start_message sd ed)"
    unfolding sublist_def by blast
  have "success_message sd = (SUCCESS_MARK @ '' Download for date success: '') @ sd @ []"
    by (simp add: success_message_def)
  then have s2: "sublist sd (success_message sd)"
    unfolding sublist_def by blast
  have l: "log_lines (effects sec eng ctx w) =
      [[CHR 0xF0, CHR 0x9F, CHR 0x92, CHR 0xBB] @ '' Start load for dates: '' @ sd @ ''/'' @ ed,
       [CHR 0xE2, CHR 0x9C, CHR 0x85] @ '' Download for date success: '' @ sd]"
    "length (log_lines (effects sec eng ctx w)) = 2"
    "statements (effects sec eng ctx w) = [sql_text sec sd ed]"
    by (simp_all add: ev start_message_def success_message_def START_MARK_def SUCCESS_MARK_def)
  have q: "sql_text sec sd ed =
           ''--sql'' @ [CHR 0x0A] @
           ''        SET TIMEZONE='UTC';'' @ [CHR 0x0A] @
           ''        INSTALL httpfs;'' @ [CHR 0x0A] @
           ''        LOAD httpfs;'' @ [CHR 0x0A] @
           ''        SET s3_url_style = 'path';'' @ [CHR 0x0A] @
           ''        SET s3_endpoint = 'minio:9000';'' @ [CHR 0x0A] @
           ''        SET s3_access_key_id = '' @ [CHR 0x27] @ ACCESS_KEY sec @ [CHR 0x27] @
             '';'' @ [CHR 0x0A] @
           ''        SET s3_secret_access_key = '' @ [CHR 0x27] @ SECRET_KEY sec @ [CHR 0x27] @
             '';'' @ [CHR 0x0A] @
           ''        SET s3_use_ssl = FALSE;'' @ [CHR 0x0A] @
           [CHR 0x0A] @
           ''        COPY'' @ [CHR 0x0A] @
           ''        ('' @ [CHR 0x0A] @
           ''            SELECT'' @ [CHR 0x0A] @
           ''                *'' @ [CHR 0x0A] @
           ''            FROM'' @ [CHR 0x0A] @
           ''                read_csv_auto('' @ [CHR 0x27] @
             ''https://earthquake.usgs.gov/fdsnws/event/1/query?format=csv&starttime='' @ sd @
             ''&endtime='' @ ed @ [CHR 0x27] @ '') AS res'' @ [CHR 0x0A] @
           ''        ) TO '' @ [CHR 0x27] @
             ''s3://prod/raw/earthquake/'' @ sd @ ''/'' @ sd @ ''_00-00-00.gz.parquet'' @
             [CHR 0x27] @ '';'' @ [CHR 0x0A] @
           [CHR 0x0A] @
           ''        ''"
    by (simp add: sql_text_def session_settings_def copy_statement_def read_url_def
        copy_target_def LAYER_def SOURCE_def NL_def SQ_def)
  have u: "read_url sd ed =
      ''https://earthquake.usgs.gov/fdsnws/event/1/query?format=csv&starttime='' @ sd @
      ''&endtime='' @ ed"
    by (simp add: read_url_def)
  have t: "copy_target sd =
      ''s3://prod/raw/earthquake/'' @ sd @ ''/'' @ sd @ ''_00-00-00.gz.parquet''"
    by (simp add: copy_target_def LAYER_def SOURCE_def)
  note rd = sql_text_reads_from [of sec sd ed, unfolded u]
  note cp = sql_text_copies_to [of sec sd ed, unfolded t]
  show ?thesis
    apply (intro conjI)
    apply (rule ev)
    apply (rule l(1))
    apply (rule l(2))
    apply (rule p1)
    apply (rule s1)
    apply (rule p2)
    apply (rule s2)
    apply (rule l(3))
    apply (rule q)
    apply (rule rd)
    apply (rule cp)
    apply (rule st)
    done
qed

theorem successful_run_effects_witness:
  "get_dates ctx_may_1 = Inr (''2025-05-01'', ''2025-05-02'') \<and>
   fst (get_and_transfer_api_data_to_s3 secrets_0 engine_ok ctx_may_1 world_0) = Inr () \<and>
   effects secrets_0 engine_ok ctx_may_1 world_0 =
     [LogInfo (START_MARK @ '' Start load for dates: 2025-05-01/2025-05-02''), Connect,
      Sql (sql_text secrets_0 ''2025-05-01'' ''2025-05-02''), Close,
      LogInfo (SUCCESS_MARK @ '' Download for date success: 2025-05-01'')] \<and>
   length (log_lines (effects secrets_0 engine_ok ctx_may_1 world_0)) = 2 \<and>
   reads_from (sql_text secrets_0 ''2025-05-01'' ''2025-05-02'')
     ''https://earthquake.usgs.gov/fdsnws/event/1/query?format=csv&starttime=2025-05-01&endtime=2025-05-02'' \<and>
   copies_to (sql_text secrets_0 ''2025-05-01'' ''2025-05-02'')
     ''s3://prod/raw/earthquake/2025-05-01/2025-05-01_00-00-00.gz.parquet'' \<and>
   objects (snd (get_and_transfer_api_data_to_s3 secrets_0 engine_ok ctx_may_1 world_0)) =
     [''s3://prod/last'' \<mapsto> sql_text secrets_0 ''2025-05-01'' ''2025-05-02'']"
proof -
  have ok: "fst (get_and_transfer_api_data_to_s3 secrets_0 engine_ok ctx_may_1 world_0) = Inr ()"
    by (simp add: run_success_iff [OF get_dates_may_1] engine_ok_def)
  note w = successful_run_effects [OF get_dates_may_1 ok]
  have e: "effects secrets_0 engine_ok ctx_may_1 world_0 =
     [LogInfo (START_MARK @ '' Start load for dates: 2025-05-01/2025-05-02''), Connect,
      Sql (sql_text secrets_0 ''2025-05-01'' ''2025-05-02''), Close,
      LogInfo (SUCCESS_MARK @ '' Download for date success: 2025-05-01'')]"
    using w [THEN conjunct1] by (simp add: start_message_def success_message_def)
  have n: "length (log_lines (effects secrets_0 engine_ok ctx_may_1 world_0)) = 2"
    by (rule w [THEN conjunct2, THEN conjunct2, THEN conjunct1])
  have r: "reads_from (sql_text secrets_0 ''2025-05-01'' ''2025-05-02'')
     ''https://earthquake.usgs.gov/fdsnws/event/1/query?format=csv&starttime=2025-05-01&endtime=2025-05-02''"
    using w [THEN conjunct2, THEN conjunct2, THEN conjunct2, THEN conjunct2, THEN conjunct2,
      THEN conjunct2, THEN conjunct2, THEN conjunct2, THEN conjunct2, THEN conjunct1]
    by simp
  have c: "copies_to (sql_text secrets_0 ''2025-05-01'' ''2025-05-02'')
     ''s3://prod/raw/earthquake/2025-05-01/2025-05-01_00-00-00.gz.parquet''"
    using w [THEN conjunct2, THEN conjunct2, THEN conjunct2, THEN conjunct2, THEN conjunct2,
      THEN conjunct2, THEN conjunct2, THEN conjunct2, THEN conjunct2, THEN conjunct2,
      THEN conjunct1]
    by simp
  have o: "objects (snd (get_and_transfer_api_data_to_s3 secrets_0 engine_ok ctx_may_1 world_0)) =
     [''s3://prod/last'' \<mapsto> sql_text secrets_0 ''2025-05-01'' ''2025-05-02'']"
    using w [THEN conjunct2, THEN conjunct2, THEN conjunct2, THEN conjunct2, THEN conjunct2,
      THEN conjunct2, THEN conjunct2, THEN conjunct2, THEN conjunct2, THEN conjunct2,
      THEN conjunct2]
    by (simp add: engine_ok_def world_0_def)
  from get_dates_may_1 ok e n r c o show ?thesis
    by (simp only: simp_thms)
qed

text \<open>
  C8. The schedule is the cron expression \<open>0 5 * * *\<close>, which fires at a minute of the
  calendar exactly when that minute is 05:00, so once on every day; at most one run of
  the DAG and one task are active at a time; the default arguments of the DAG are \<open>args\<close>,
  with 3 retries and a delay of 3600 seconds, one hour, between attempts.
\<close>

theorem schedule_contract:
  "schedule_interval dag = ''0 5 * * *'' \<and>
   cron_fires (schedule_interval dag) mi h dmon mo dow = (mi = 0 \<and> h = 5) \<and>
   max_active_runs dag = 1 \<and> max_active_tasks dag = 1 \<and> concurrency dag = 1 \<and>
   dag_default_args dag = args \<and> retries args = 3 \<and> retry_delay args = 3600"
proof -
  have sp: "split_on (CHR '' '') ''0 5 * * *'' = [''0'', ''5'', ''*'', ''*'', ''*'']"
    by simp
  have sym: "([c] = dec n) = (n < 10 \<and> c = digit_char n)" for c n
    using dec_single [of n c] by auto
  have m0: "cron_field_matches ''0'' mi = (mi = 0)"
    using below_ten [of mi] by (auto simp: cron_field_matches_def sym digit_char_def)
  have m5: "cron_field_matches ''5'' h = (h = 5)"
    using below_ten [of h] by (auto simp: cron_field_matches_def sym digit_char_def)
  have any: "cron_field_matches ''*'' v" for v
    by (simp add: cron_field_matches_def)
  have fires: "cron_fires ''0 5 * * *'' mi h dmon mo dow = (mi = 0 \<and> h = 5)"
    unfolding cron_fires_def sp by (simp add: m0 m5 any)
  show ?thesis
    by (simp add: dag_def args_def duration_hours_def fires)
qed

text \<open>
  C9. Two contexts that hold the same values under \<open>data_interval_start\<close> and
  \<open>data_interval_end\<close> (the same value, or both none) give the same run: the same dates or
  the same exception from \<open>get_dates\<close>, the same result, the same events with the same
  log lines and the same text, the same final world. No other key is read.
\<close>

theorem context_noninterference:
  assumes "c1 ''data_interval_start'' = c2 ''data_interval_start''"
    and "c1 ''data_interval_end'' = c2 ''data_interval_end''"
  shows "get_dates c1 = get_dates c2 \<and>
         get_and_transfer_api_data_to_s3 sec eng c1 w =
           get_and_transfer_api_data_to_s3 sec eng c2 w \<and>
         effects sec eng c1 w = effects sec eng c2 w"
proof -
  from assms have "getitem c1 ''data_interval_start'' = getitem c2 ''data_interval_start''"
    and "getitem c1 ''data_interval_end'' = getitem c2 ''data_interval_end''"
    by (simp_all add: getitem_def)
  then have "get_dates c1 = get_dates c2"
    by (simp add: get_dates_def cong: sum.case_cong)
  then show ?thesis
    by (simp add: effects_def get_and_transfer_api_data_to_s3_def)
qed

theorem context_noninterference_witness:
  "ctx_may_1 ''data_interval_start'' = ctx_may_1_ds ''data_interval_start'' \<and>
   ctx_may_1 ''data_interval_end'' = ctx_may_1_ds ''data_interval_end'' \<and>
   ctx_may_1 ''ds'' \<noteq> ctx_may_1_ds ''ds'' \<and>
   get_dates ctx_may_1_ds = Inr (''2025-05-01'', ''2025-05-02'') \<and>
   get_and_transfer_api_data_to_s3 secrets_0 engine_ok ctx_may_1 world_0 =
     get_and_transfer_api_data_to_s3 secrets_0 engine_ok ctx_may_1_ds world_0 \<and>
   effects secrets_0 engine_ok ctx_may_1 world_0 =
     effects secrets_0 engine_ok ctx_may_1_ds world_0"
proof -
  have a: "ctx_may_1 ''data_interval_start'' = ctx_may_1_ds ''data_interval_start''"
    and b: "ctx_may_1 ''data_interval_end'' = ctx_may_1_ds ''data_interval_end''"
    and c: "ctx_may_1 ''ds'' \<noteq> ctx_may_1_ds ''ds''"
    by (simp_all add: ctx_may_1_ds_def ctx_may_1_def)
  from context_noninterference [OF a b, of secrets_0 engine_ok world_0] a b c get_dates_may_1
  show ?thesis
    by simp
qed

text \<open>
  C10, as the claim states it, fails: the end date is also written into the start log
  line. Two runs with the start date 2025-05-01 and the end dates 2025-05-02 and
  2025-05-03, the same secrets, engine and world, log different start lines.
\<close>

theorem end_date_in_start_line_counterexample:
  "get_dates ctx_may_1 = Inr (''2025-05-01'', ''2025-05-02'') \<and>
   get_dates ctx_may_1_to_3 = Inr (''2025-05-01'', ''2025-05-03'') \<and>
   log_lines (effects secrets_0 engine_ok ctx_may_1 world_0) =
     [START_MARK @ '' Start load for dates: 2025-05-01/2025-05-02'',
      SUCCESS_MARK @ '' Download for date success: 2025-05-01''] \<and>
   log_lines (effects secrets_0 engine_ok ctx_may_1_to_3 world_0) =
     [START_MARK @ '' Start load for dates: 2025-05-01/2025-05-03'',
      SUCCESS_MARK @ '' Download for date success: 2025-05-01''] \<and>
   log_lines (effects secrets_0 engine_ok ctx_may_1 world_0) \<noteq>
     log_lines (effects secrets_0 engine_ok ctx_may_1_to_3 world_0)"
proof -
  have ok: "connect_raises engine_ok = None" "fst (sql_run engine_ok q st) = None"
    "close_raises engine_ok = None" for q st
    by (simp_all add: engine_ok_def)
  show ?thesis
    by (simp add: get_dates_may_1 get_dates_may_1_to_3 effects_def
        run_success [OF get_dates_may_1 ok] run_success [OF get_dates_may_1_to_3 ok]
        start_message_def success_message_def)
qed

text \<open>
  C10, amended. The end date reaches two places only: the end of the start log line, and
  the text right after \<open>&endtime=\<close>. For given secrets and start date there are fixed
  strings \<open>P\<close>, \<open>A\<close> and \<open>B\<close> such that every run with that start date, whatever its end
  date \<open>ed\<close>, does a prefix of the events: start line \<open>P @ ed\<close>, opening, text
  \<open>A @ ed @ B\<close>, closing, success line of the start date; and all of them when it returns
  normally. \<open>A\<close> opens with the session settings and closes with \<open>&endtime=\<close>, and \<open>B\<close>
  closes with the copy to the target path of the start date. So the settings, the
  target path and the success line do not depend on the end date, and two runs with the
  same start date copy to the same path.
\<close>

theorem end_date_frame:
  "\<exists>P A B.
     prefix (session_settings sec) A \<and> suffix ''&endtime='' A \<and>
     copies_to B (copy_target sd) \<and>
     (\<forall>ctx ed eng w.
        get_dates ctx = Inr (sd, ed) \<longrightarrow>
          prefix (effects sec eng ctx w)
            [LogInfo (P @ ed), Connect, Sql (A @ ed @ B), Close, LogInfo (success_message sd)] \<and>
          copies_to (A @ ed @ B) (copy_target sd) \<and>
          (fst (get_and_transfer_api_data_to_s3 sec eng ctx w) = Inr () \<longrightarrow>
             effects sec eng ctx w =
               [LogInfo (P @ ed), Connect, Sql (A @ ed @ B), Close,
                LogInfo (success_message sd)]))"
proof -
  define P where "P = START_MARK @ '' Start load for dates: '' @ sd @ ''/''"
  define A0 where "A0 =
       ''        COPY'' @ NL @
       ''        ('' @ NL @
       ''            SELECT'' @ NL @
       ''                *'' @ NL @
       ''            FROM'' @ NL @
       ''                read_csv_auto('' @ SQ @
       ''https://earthquake.usgs.gov/fdsnws/event/1/query?format=csv&starttime='' @ sd"
  define A where "A = session_settings sec @ A0 @ ''&endtime=''"
  define B0 where "B0 = SQ @ '') AS res'' @ NL @ ''        ''"
  define B where "B = B0 @ '') TO '' @ SQ @ copy_target sd @ SQ @ '';'' @ NL @ NL @ ''        ''"
  have msg: "start_message sd ed = P @ ed" for ed
    by (simp add: start_message_def P_def)
  have parts: "sql_text sec sd ed = A @ ed @ B" for ed
    by (simp add: sql_text_def copy_statement_def read_url_def A_def A0_def B_def B0_def)
  have a1: "prefix (session_settings sec) A"
    unfolding A_def by (rule prefixI) (rule refl)
  have "A = (session_settings sec @ A0) @ ''&endtime=''"
    by (simp add: A_def)
  then have a2: "suffix ''&endtime='' A"
    by (rule suffixI)
  have b: "copies_to B (copy_target sd)"
    unfolding copies_to_def B_def by (rule suffixI) (rule refl)
  have c: "copies_to (A @ ed @ B) (copy_target sd)" for ed
    using sql_text_copies_to [of sec sd ed] by (simp only: parts)
  have run: "prefix (effects sec eng ctx w)
        [LogInfo (P @ ed), Connect, Sql (A @ ed @ B), Close, LogInfo (success_message sd)] \<and>
      (fst (get_and_transfer_api_data_to_s3 sec eng ctx w) = Inr () \<longrightarrow>
         effects sec eng ctx w =
           [LogInfo (P @ ed), Connect, Sql (A @ ed @ B), Close, LogInfo (success_message sd)])"
    if d: "get_dates ctx = Inr (sd, ed)" for ctx ed eng w
  proof (cases "connect_raises eng")
    case (Some e)
    then show ?thesis
      by (simp add: effects_def run_connect_error [OF d] msg)
  next
    case None
    note cn = this
    show ?thesis
    proof (cases "fst (sql_run eng (sql_text sec sd ed) (objects w))")
      case (Some e)
      then show ?thesis
        by (simp add: effects_def run_sql_error [OF d cn] msg parts [symmetric])
    next
      case None
      then show ?thesis
        by (cases "close_raises eng")
          (simp_all add: effects_def run_close_error [OF d cn] run_success [OF d cn] msg
            parts [symmetric])
    qed
  qed
  from a1 a2 b c run show ?thesis
    by blast
qed

theorem end_date_frame_witness:
  "get_dates ctx_may_1 = Inr (''2025-05-01'', ''2025-05-02'') \<and>
   get_dates ctx_may_1_to_3 = Inr (''2025-05-01'', ''2025-05-03'') \<and>
   fst (get_and_transfer_api_data_to_s3 secrets_0 engine_ok ctx_may_1 world_0) = Inr () \<and>
   fst (get_and_transfer_api_data_to_s3 secrets_0 engine_ok ctx_may_1_to_3 world_0) = Inr () \<and>
   (\<exists>P A B.
      prefix (session_settings secrets_0) A \<and> suffix ''&endtime='' A \<and>
      copies_to B (copy_target ''2025-05-01'') \<and>
      effects secrets_0 engine_ok ctx_may_1 world_0 =
        [LogInfo (P @ ''2025-05-02''), Connect, Sql (A @ ''2025-05-02'' @ B), Close,
         LogInfo (success_message ''2025-05-01'')] \<and>
      effects secrets_0 engine_ok ctx_may_1_to_3 world_0 =
        [LogInfo (P @ ''2025-05-03''), Connect, Sql (A @ ''2025-05-03'' @ B), Close,
         LogInfo (success_message ''2025-05-01'')])"
proof -
  have ok1: "fst (get_and_transfer_api_data_to_s3 secrets_0 engine_ok ctx_may_1 world_0) = Inr ()"
    by (simp add: run_success_iff [OF get_dates_may_1] engine_ok_def)
  have ok2:
    "fst (get_and_transfer_api_data_to_s3 secrets_0 engine_ok ctx_may_1_to_3 world_0) = Inr ()"
    by (simp add: run_success_iff [OF get_dates_may_1_to_3] engine_ok_def)
  from end_date_frame [of secrets_0 "''2025-05-01''"]
  obtain P A B where
    f: "prefix (session_settings secrets_0) A" "suffix ''&endtime='' A"
      "copies_to B (copy_target ''2025-05-01'')"
    and r: "\<And>ctx ed eng w. get_dates ctx = Inr (''2025-05-01'', ed) \<Longrightarrow>
        fst (get_and_transfer_api_data_to_s3 secrets_0 eng ctx w) = Inr () \<Longrightarrow>
        effects secrets_0 eng ctx w =
          [LogInfo (P @ ed), Connect, Sql (A @ ed @ B), Close,
           LogInfo (success_message ''2025-05-01'')]"
    by blast
  from f r [OF get_dates_may_1 ok1] r [OF get_dates_may_1_to_3 ok2]
  have "\<exists>P A B.
      prefix (session_settings secrets_0) A \<and> suffix ''&endtime='' A \<and>
      copies_to B (copy_target ''2025-05-01'') \<and>
      effects secrets_0 engine_ok ctx_may_1 world_0 =
        [LogInfo (P @ ''2025-05-02''), Connect, Sql (A @ ''2025-05-02'' @ B), Close,
         LogInfo (success_message ''2025-05-01'')] \<and>
      effects secrets_0 engine_ok ctx_may_1_to_3 world_0 =
        [LogInfo (P @ ''2025-05-03''), Connect, Sql (A @ ''2025-05-03'' @ B), Close,
         LogInfo (success_message ''2025-05-01'')]"
    by blast
  with get_dates_may_1 get_dates_may_1_to_3 ok1 ok2 show ?thesis
    by (simp only: simp_thms)
qed

end
